theory Spec2Isabelle
  imports Main
begin

section \<open>The tracer lifecycle manager of \<^verbatim>\<open>otel/tracer/tracer.go\<close>\<close>

text \<open>
  The package wires an OTLP export pipeline into the two process-wide slots of the
  OpenTelemetry API (the tracer provider and the text-map propagator) and hands back a
  handle over it. The Go standard library and the OpenTelemetry SDK are collaborators:
  what they compute is a parameter of the model (\<open>Externals\<close>), what the package
  passes to them and does with their results is modelled line by line.
\<close>

subsection \<open>Go values\<close>

text \<open>
  A Go \<^verbatim>\<open>error\<close>. \<open>Err s\<close> is an error whose message is \<open>s\<close> and that wraps nothing
  (\<^verbatim>\<open>fmt.Errorf(s)\<close> without a verb, or an error of a library);
  \<open>Wrap p e\<close> is \<^verbatim>\<open>fmt.Errorf(p + ": %w", e)\<close>.
\<close>

datatype GoError = Err string | Wrap string GoError

fun Error :: "GoError \<Rightarrow> string" where
  "Error (Err s) = s"
| "Error (Wrap p e) = p @ '': '' @ Error e"

fun Unwrap :: "GoError \<Rightarrow> GoError option" where
  "Unwrap (Err s) = None"
| "Unwrap (Wrap p e) = Some e"

text \<open>
  A call either returns or panics. The only panics of this package are nil pointer
  dereferences (of \<^verbatim>\<open>cfg\<close> in \<^verbatim>\<open>InitTracer\<close>, of the receiver in \<^verbatim>\<open>Shutdown\<close>).
\<close>

datatype 'a outcome = Panic | Returns 'a

text \<open>The fields of \<^verbatim>\<open>url.URL\<close> that the package reads.\<close>

record URL =
  Scheme :: string
  Host :: string

subsection \<open>The configuration\<close>

text \<open>
  \<^verbatim>\<open>credentials.TransportCredentials\<close> and \<^verbatim>\<open>sdkTrace.Sampler\<close> are interfaces of
  the collaborators. Credential material is opaque here (a tag tells two apart); a
  sampler is either the SDK's \<^verbatim>\<open>AlwaysSample()\<close> or some other implementation.
  The two fields of \<^verbatim>\<open>Config\<close> are pointers to such values: \<open>None\<close> is \<^verbatim>\<open>nil\<close>.
\<close>

datatype TransportCredentials = TransportCredentials string

datatype Sampler = AlwaysSample | OtherSampler string

record Config =
  ExporterURL :: string
  SecretToken :: string
  ServiceName :: string
  ServiceVersion :: string
  DeploymentEnvironment :: string
  Creds :: "TransportCredentials option"
  Sampler :: "Sampler option"

subsection \<open>What the package builds from the SDK\<close>

text \<open>
  The options of \<^verbatim>\<open>otlptracegrpc\<close> that the package uses, and a client as the
  options \<^verbatim>\<open>NewClient\<close> was called with, in order.
\<close>

datatype Option =
    WithEndpoint string
  | WithTLSCredentials TransportCredentials
  | WithInsecure
  | WithHeaders "string \<rightharpoonup> string"

datatype Client = NewClient "Option list"

text \<open>An exporter is identified by the client it was started over.\<close>

datatype Exporter = Exporter (exporter_client: Client)

text \<open>The four attribute keys of \<^verbatim>\<open>semconv\<close> the package uses; a resource is its attributes.\<close>

datatype AttrKey =
    ServiceNameKey
  | ServiceVersionKey
  | DeploymentEnvironmentKey
  | TelemetrySDKLanguageKey

type_synonym KeyValue = "AttrKey \<times> string"

datatype Resource = Resource (resource_attributes: "KeyValue list")

text \<open>
  \<^verbatim>\<open>sdkTrace.NewTracerProvider(WithSampler(s), WithBatcher(e), WithResource(r))\<close>:
  the SDK provider, as the three option arguments it was constructed from.
\<close>

record SdkTracerProvider =
  tp_sampler :: Sampler
  tp_batcher :: Exporter
  tp_resource :: Resource

definition NewTracerProvider :: "Sampler \<Rightarrow> Exporter \<Rightarrow> Resource \<Rightarrow> SdkTracerProvider" where
  "NewTracerProvider s e r = \<lparr>tp_sampler = s, tp_batcher = e, tp_resource = r\<rparr>"

text \<open>
  A value of the interface \<^verbatim>\<open>trace.TracerProvider\<close>: nil, the provider of package
  \<^verbatim>\<open>noop\<close>, a (non-nil) \<^verbatim>\<open>*sdkTrace.TracerProvider\<close>, or any other implementation
  (such as the delegating provider the API holds before anything is installed).
\<close>

datatype TracerProvider =
    NilProvider
  | NoopProvider
  | SdkProvider SdkTracerProvider
  | OtherProvider string

text \<open>
  A value of the interface \<^verbatim>\<open>trace.Tracer\<close>: nil, or the tracer a provider hands out
  under a name.
\<close>

datatype Tracer = NilTracer | NamedTracer (tracer_from: TracerProvider) (tracer_name: string)

datatype TextMapPropagator =
    TraceContext
  | Baggage
  | NewCompositeTextMapPropagator "TextMapPropagator list"

subsection \<open>The process-wide state of the OpenTelemetry API\<close>

record Globals =
  globalTracerProvider :: TracerProvider
  globalTextMapPropagator :: TextMapPropagator

definition SetTracerProvider :: "TracerProvider \<Rightarrow> Globals \<Rightarrow> Globals" where
  "SetTracerProvider tp g = g\<lparr>globalTracerProvider := tp\<rparr>"

definition SetTextMapPropagator :: "TextMapPropagator \<Rightarrow> Globals \<Rightarrow> Globals" where
  "SetTextMapPropagator p g = g\<lparr>globalTextMapPropagator := p\<rparr>"

text \<open>\<^verbatim>\<open>otel.Tracer(name)\<close> is \<^verbatim>\<open>GetTracerProvider().Tracer(name)\<close>.\<close>

definition otel_Tracer :: "Globals \<Rightarrow> string \<Rightarrow> Tracer" where
  "otel_Tracer g name = NamedTracer (globalTracerProvider g) name"

subsection \<open>The collaborators\<close>

text \<open>
  What the package cannot decide itself: the result of \<^verbatim>\<open>url.Parse\<close>, and whether
  \<^verbatim>\<open>otlptrace.New\<close>, \<^verbatim>\<open>resource.New\<close> and the SDK provider's \<^verbatim>\<open>Shutdown\<close> fail
  (\<open>None\<close> is a nil error). The context is opaque and only handed on.
\<close>

record 'ctx Externals =
  url_Parse :: "string \<Rightarrow> GoError + URL"
  otlptrace_New_err :: "'ctx \<Rightarrow> Client \<Rightarrow> GoError option"
  resource_New_err :: "'ctx \<Rightarrow> KeyValue list \<Rightarrow> GoError option"
  sdk_Shutdown_err :: "'ctx \<Rightarrow> SdkTracerProvider \<Rightarrow> GoError option"

definition otlptrace_New :: "'ctx Externals \<Rightarrow> 'ctx \<Rightarrow> Client \<Rightarrow> GoError + Exporter" where
  "otlptrace_New ext ctx c =
     (case otlptrace_New_err ext ctx c of Some err \<Rightarrow> Inl err | None \<Rightarrow> Inr (Exporter c))"

definition resource_New :: "'ctx Externals \<Rightarrow> 'ctx \<Rightarrow> KeyValue list \<Rightarrow> GoError + Resource" where
  "resource_New ext ctx attrs =
     (case resource_New_err ext ctx attrs of Some err \<Rightarrow> Inl err | None \<Rightarrow> Inr (Resource attrs))"

subsection \<open>The handle and its constructors\<close>

record otelTracer =
  tracer :: Tracer
  tracerProvider :: TracerProvider

text \<open>
  \<^verbatim>\<open>InitTracer(ctx, cfg)\<close>. The argument \<open>cfg\<close> is a pointer (\<open>None\<close> is nil); the
  result is the outcome of the call (\<open>Inl err\<close> for \<^verbatim>\<open>(nil, err)\<close>, \<open>Inr h\<close> for
  \<^verbatim>\<open>(&h, nil)\<close>), the \<^verbatim>\<open>Config\<close> the pointer refers to after the call, and the
  process-wide state after the call.
\<close>

fun InitTracer ::
  "'ctx Externals \<Rightarrow> 'ctx \<Rightarrow> Config option \<Rightarrow> Globals \<Rightarrow>
     (GoError + otelTracer) outcome \<times> Config option \<times> Globals" where
  "InitTracer ext ctx None g = (Panic, None, g)"
| "InitTracer ext ctx (Some cfg) g =
     (if ExporterURL cfg = []
      then (Returns (Inl (Err ''endpoint is missing in the otlp tracer configuration'')),
            Some cfg, g)
      else if ServiceName cfg = []
      then (Returns (Inl (Err ''service name is missing in the otlp tracer configuration'')),
            Some cfg, g)
      else
        case url_Parse ext (ExporterURL cfg) of
          Inl err \<Rightarrow> (Returns (Inl (Wrap ''invalid exporter URL'' err)), Some cfg, g)
        | Inr u \<Rightarrow>
            (let endpoint = Host u;
                 cfg = (if Scheme u = ''http'' then cfg\<lparr>Creds := None\<rparr> else cfg);
                 secureOption =
                   (case Creds cfg of
                      Some creds \<Rightarrow> WithTLSCredentials creds
                    | None \<Rightarrow> WithInsecure)
             in
               (case otlptrace_New ext ctx
                       (NewClient
                          [WithEndpoint endpoint,
                           secureOption,
                           WithHeaders [''Authorization'' \<mapsto> ''Bearer '' @ SecretToken cfg]]) of
                  Inl err \<Rightarrow>
                    (Returns (Inl (Wrap ''failed to create otlp exporter'' err)), Some cfg, g)
                | Inr exporter \<Rightarrow>
                    (case resource_New ext ctx
                            [(ServiceNameKey, ServiceName cfg),
                             (ServiceVersionKey, ServiceVersion cfg),
                             (DeploymentEnvironmentKey, DeploymentEnvironment cfg),
                             (TelemetrySDKLanguageKey, ''go'')] of
                       Inl err \<Rightarrow>
                         (Returns (Inl (Wrap ''failed to create otlp resource'' err)),
                          Some cfg, g)
                     | Inr resource \<Rightarrow>
                         (let sampler =
                                (case Sampler cfg of Some s \<Rightarrow> s | None \<Rightarrow> AlwaysSample);
                              tp = NewTracerProvider sampler exporter resource;
                              g = SetTracerProvider (SdkProvider tp) g;
                              g = SetTextMapPropagator
                                    (NewCompositeTextMapPropagator [TraceContext, Baggage]) g
                          in (Returns
                                (Inr \<lparr>tracer = otel_Tracer g (ServiceName cfg @ ''-tracer''),
                                      tracerProvider = SdkProvider tp\<rparr>),
                              Some cfg, g))))))"

text \<open>\<^verbatim>\<open>InitNoopTracer(ctx)\<close>: the returned pair and the process-wide state after the call.\<close>

definition InitNoopTracer :: "'ctx \<Rightarrow> Globals \<Rightarrow> (GoError + otelTracer) \<times> Globals" where
  "InitNoopTracer ctx g =
     (let tp = NoopProvider;
          g = SetTracerProvider tp g
      in (Inr \<lparr>tracer = otel_Tracer g ''noop-tracer'', tracerProvider = tp\<rparr>, g))"

subsection \<open>The operations of the handle\<close>

text \<open>The receiver is a pointer; a nil receiver panics at the field access.\<close>

fun Tracer_of :: "otelTracer option \<Rightarrow> Tracer outcome" where
  "Tracer_of None = Panic"
| "Tracer_of (Some t) = (if tracer t \<noteq> NilTracer then Returns (tracer t) else Returns NilTracer)"

fun TracerProvider_of :: "otelTracer option \<Rightarrow> TracerProvider outcome" where
  "TracerProvider_of None = Panic"
| "TracerProvider_of (Some t) =
     (if tracerProvider t \<noteq> NilProvider then Returns (tracerProvider t) else Returns NilProvider)"

text \<open>
  \<^verbatim>\<open>t.Shutdown(ctx)\<close>: the outcome (\<open>None\<close> is a nil error), and the SDK providers whose
  \<^verbatim>\<open>Shutdown\<close> the call invoked, in order. That method is the only thing in the package
  that flushes spans or reaches the network at shutdown.
\<close>

fun Shutdown ::
  "'ctx Externals \<Rightarrow> otelTracer option \<Rightarrow> 'ctx \<Rightarrow> GoError option outcome \<times> SdkTracerProvider list" where
  "Shutdown ext None ctx = (Panic, [])"
| "Shutdown ext (Some t) ctx =
     (case tracerProvider t of
        SdkProvider tp \<Rightarrow>
          (case sdk_Shutdown_err ext ctx tp of
             Some err \<Rightarrow> (Returns (Some (Wrap ''failed to shutdown tracer provider'' err)), [tp])
           | None \<Rightarrow> (Returns None, [tp]))
      | _ \<Rightarrow> (Returns None, []))"

subsection \<open>Classifying the errors of \<^verbatim>\<open>InitTracer\<close>\<close>

text \<open>The errors that line 54 returns: a parse error wrapped as \<^verbatim>\<open>invalid exporter URL\<close>.\<close>

fun invalid_exporter_URL_error :: "GoError \<Rightarrow> bool" where
  "invalid_exporter_URL_error (Wrap p e) = (p = ''invalid exporter URL'')"
| "invalid_exporter_URL_error (Err s) = False"

subsection \<open>Concrete collaborators and configurations\<close>

text \<open>
  A parser that agrees with \<^verbatim>\<open>url.Parse\<close> on the three strings it accepts
  (\<^verbatim>\<open>url.Parse\<close> takes a string without a scheme as a relative path, so it accepts
  \<^verbatim>\<open>not a url\<close> with an empty scheme and host) and rejects everything else, and
  collaborators around it that never fail.
\<close>

definition example_url_Parse :: "string \<Rightarrow> GoError + URL" where
  "example_url_Parse s =
     (if s = ''http://localhost:4317''
      then Inr \<lparr>Scheme = ''http'', Host = ''localhost:4317''\<rparr>
      else if s = ''https://collector.example:4317''
      then Inr \<lparr>Scheme = ''https'', Host = ''collector.example:4317''\<rparr>
      else if s = ''not a url''
      then Inr \<lparr>Scheme = [], Host = []\<rparr>
      else Inl (Err ''missing protocol scheme''))"

definition example_ext :: "unit Externals" where
  "example_ext =
     \<lparr>url_Parse = example_url_Parse,
      otlptrace_New_err = (\<lambda>ctx c. None),
      resource_New_err = (\<lambda>ctx attrs. None),
      sdk_Shutdown_err = (\<lambda>ctx tp. None)\<rparr>"

text \<open>Collaborators of which one fails: the URL parser on every input, the exporter
  constructor, the SDK provider's shutdown.\<close>

definition rejecting_url_ext :: "unit Externals" where
  "rejecting_url_ext = example_ext\<lparr>url_Parse := (\<lambda>s. Inl (Err ''invalid URL''))\<rparr>"

definition failing_exporter_ext :: "unit Externals" where
  "failing_exporter_ext =
     example_ext\<lparr>otlptrace_New_err := (\<lambda>ctx c. Some (Err ''invalid client options''))\<rparr>"

definition failing_shutdown_ext :: "unit Externals" where
  "failing_shutdown_ext =
     example_ext\<lparr>sdk_Shutdown_err := (\<lambda>ctx tp. Some (Err ''context deadline exceeded''))\<rparr>"

text \<open>The process-wide state before anything is installed, and after a no-op provider was.\<close>

definition initial_globals :: Globals where
  "initial_globals =
     \<lparr>globalTracerProvider = OtherProvider ''global delegate'',
      globalTextMapPropagator = NewCompositeTextMapPropagator []\<rparr>"

definition noop_globals :: Globals where
  "noop_globals =
     \<lparr>globalTracerProvider = NoopProvider,
      globalTextMapPropagator = NewCompositeTextMapPropagator [Baggage]\<rparr>"

text \<open>The configurations of the scenarios.\<close>

definition insecure_cfg :: Config where
  "insecure_cfg =
     \<lparr>ExporterURL = ''http://localhost:4317'', SecretToken = [], ServiceName = ''x'',
      ServiceVersion = [], DeploymentEnvironment = [],
      Creds = Some (TransportCredentials ''tls''), Sampler = None\<rparr>"

definition orders_cfg :: Config where
  "orders_cfg =
     \<lparr>ExporterURL = ''https://collector.example:4317'', SecretToken = ''s3cr3t'',
      ServiceName = ''orders'', ServiceVersion = ''1.0'', DeploymentEnvironment = ''prod'',
      Creds = Some (TransportCredentials ''tls''), Sampler = Some (OtherSampler ''counting'')\<rparr>"

definition not_a_url_cfg :: Config where
  "not_a_url_cfg =
     \<lparr>ExporterURL = ''not a url'', SecretToken = [], ServiceName = [],
      ServiceVersion = [], DeploymentEnvironment = [], Creds = None, Sampler = None\<rparr>"

section \<open>Properties\<close>

subsection \<open>Evaluation and the two ways \<^verbatim>\<open>InitTracer\<close> returns\<close>

lemmas eval_defs =
  example_ext_def example_url_Parse_def rejecting_url_ext_def failing_exporter_ext_def
  failing_shutdown_ext_def initial_globals_def noop_globals_def insecure_cfg_def
  orders_cfg_def not_a_url_cfg_def otlptrace_New_def resource_New_def
  SetTracerProvider_def SetTextMapPropagator_def otel_Tracer_def NewTracerProvider_def
  InitNoopTracer_def Let_def

text \<open>
  A successful call: the configuration passed the three checks, neither constructor
  failed, and the handle, the configuration and the process-wide state are these.
\<close>

lemma InitTracer_success:
  assumes "InitTracer ext ctx cfgp g = (Returns (Inr h), cfg', g')"
  shows "\<exists>cfg u.
           cfgp = Some cfg \<and> ExporterURL cfg \<noteq> [] \<and> ServiceName cfg \<noteq> [] \<and>
           url_Parse ext (ExporterURL cfg) = Inr u \<and>
           cfg' = Some (if Scheme u = ''http'' then cfg\<lparr>Creds := None\<rparr> else cfg) \<and>
           tracer h = NamedTracer (tracerProvider h) (ServiceName cfg @ ''-tracer'') \<and>
           tracerProvider h =
             SdkProvider
               (NewTracerProvider
                  (case Sampler cfg of Some s \<Rightarrow> s | None \<Rightarrow> AlwaysSample)
                  (Exporter
                     (NewClient
                        [WithEndpoint (Host u),
                         (case (if Scheme u = ''http'' then None else Creds cfg) of
                            Some creds \<Rightarrow> WithTLSCredentials creds
                          | None \<Rightarrow> WithInsecure),
                         WithHeaders [''Authorization'' \<mapsto> ''Bearer '' @ SecretToken cfg]]))
                  (Resource
                     [(ServiceNameKey, ServiceName cfg),
                      (ServiceVersionKey, ServiceVersion cfg),
                      (DeploymentEnvironmentKey, DeploymentEnvironment cfg),
                      (TelemetrySDKLanguageKey, ''go'')])) \<and>
           g' = g\<lparr>globalTracerProvider := tracerProvider h,
                  globalTextMapPropagator :=
                    NewCompositeTextMapPropagator [TraceContext, Baggage]\<rparr>"
proof (cases cfgp)
  case None
  with assms show ?thesis by simp
next
  case (Some cfg)
  note run = assms [unfolded Some]
  from run have ne: "ExporterURL cfg \<noteq> []" "ServiceName cfg \<noteq> []"
    by (simp_all split: if_splits)
  from run ne obtain u where u: "url_Parse ext (ExporterURL cfg) = Inr u"
    by (cases "url_Parse ext (ExporterURL cfg)") simp_all
  show ?thesis
  proof (cases "Scheme u = ''http''")
    case True
    with run ne u Some show ?thesis
      by (auto simp: Let_def otlptrace_New_def resource_New_def SetTracerProvider_def
            SetTextMapPropagator_def otel_Tracer_def split: option.splits)
  next
    case False
    with run ne u Some show ?thesis
      by (auto simp: Let_def otlptrace_New_def resource_New_def SetTracerProvider_def
            SetTextMapPropagator_def otel_Tracer_def split: option.splits)
  qed
qed

text \<open>A failed call leaves the process-wide state alone and returns one of five errors.\<close>

lemma InitTracer_error:
  assumes "InitTracer ext ctx cfgp g = (Returns (Inl err), cfg', g')"
  shows "g' = g \<and>
         (err = Err ''endpoint is missing in the otlp tracer configuration'' \<or>
          err = Err ''service name is missing in the otlp tracer configuration'' \<or>
          (\<exists>e. err = Wrap ''invalid exporter URL'' e) \<or>
          (\<exists>e. err = Wrap ''failed to create otlp exporter'' e) \<or>
          (\<exists>e. err = Wrap ''failed to create otlp resource'' e))"
proof (cases cfgp)
  case None
  with assms show ?thesis by simp
next
  case (Some cfg)
  note run = assms [unfolded Some]
  show ?thesis
  proof (cases "ExporterURL cfg = [] \<or> ServiceName cfg = []")
    case True
    with run show ?thesis by (auto split: if_splits)
  next
    case ne: False
    show ?thesis
    proof (cases "url_Parse ext (ExporterURL cfg)")
      case (Inl e)
      with run ne show ?thesis by auto
    next
      case (Inr u)
      with run ne show ?thesis
        by (cases "Scheme u = ''http''")
           (auto simp: Let_def otlptrace_New_def resource_New_def split: option.splits)
    qed
  qed
qed

text \<open>The configuration the pointer refers to after a call whose URL parsed.\<close>

lemma InitTracer_cfg_after:
  assumes "ExporterURL cfg \<noteq> []" and "ServiceName cfg \<noteq> []"
    and "url_Parse ext (ExporterURL cfg) = Inr u"
  shows "fst (snd (InitTracer ext ctx (Some cfg) g)) =
           Some (if Scheme u = ''http'' then cfg\<lparr>Creds := None\<rparr> else cfg)"
  using assms
  by (cases "Scheme u = ''http''")
     (simp_all add: Let_def otlptrace_New_def resource_New_def split: option.splits)

lemma InitTracer_Some_returns: "fst (InitTracer ext ctx (Some cfg) g) \<noteq> Panic"
proof (cases "url_Parse ext (ExporterURL cfg)")
  case (Inl e)
  then show ?thesis by simp
next
  case (Inr u)
  then show ?thesis
    by (cases "Scheme u = ''http''")
       (simp_all add: Let_def otlptrace_New_def resource_New_def split: option.splits)
qed

text \<open>
  The converse: a configuration that passes the three checks is accepted whenever the
  two constructors do not fail on what the package hands them; the secret token plays no
  part in that.
\<close>

lemma InitTracer_accepts:
  assumes "ExporterURL cfg \<noteq> []" and "ServiceName cfg \<noteq> []"
    and "url_Parse ext (ExporterURL cfg) = Inr u"
    and "otlptrace_New_err ext ctx
           (NewClient
              [WithEndpoint (Host u),
               (case (if Scheme u = ''http'' then None else Creds cfg) of
                  Some creds \<Rightarrow> WithTLSCredentials creds
                | None \<Rightarrow> WithInsecure),
               WithHeaders [''Authorization'' \<mapsto> ''Bearer '' @ SecretToken cfg]]) = None"
    and "resource_New_err ext ctx
           [(ServiceNameKey, ServiceName cfg),
            (ServiceVersionKey, ServiceVersion cfg),
            (DeploymentEnvironmentKey, DeploymentEnvironment cfg),
            (TelemetrySDKLanguageKey, ''go'')] = None"
  shows "\<exists>h cfg' g'. InitTracer ext ctx (Some cfg) g = (Returns (Inr h), cfg', g')"
  using assms
  by (cases "Scheme u = ''http''")
     (simp_all add: Let_def otlptrace_New_def resource_New_def)

text \<open>The accessors of a handle return its fields as they are.\<close>

lemma accessors_return_fields:
  "Tracer_of (Some t) = Returns (tracer t) \<and>
   TracerProvider_of (Some t) = Returns (tracerProvider t)"
  by simp

subsection \<open>The claims\<close>

text \<open>
  C1. Whenever \<^verbatim>\<open>InitTracer\<close> returns an error, the process-wide tracer provider and
  propagator are the ones from before the call; the error is one of the five the function
  can return (missing endpoint, missing service name, URL parse failure, exporter
  construction failure, resource construction failure).
\<close>

theorem InitTracer_failure_keeps_globals:
  assumes "InitTracer ext ctx cfgp g = (Returns (Inl err), cfg', g')"
  shows "globalTracerProvider g' = globalTracerProvider g \<and>
         globalTextMapPropagator g' = globalTextMapPropagator g \<and>
         g' = g \<and>
         (err = Err ''endpoint is missing in the otlp tracer configuration'' \<or>
          err = Err ''service name is missing in the otlp tracer configuration'' \<or>
          (\<exists>e. err = Wrap ''invalid exporter URL'' e) \<or>
          (\<exists>e. err = Wrap ''failed to create otlp exporter'' e) \<or>
          (\<exists>e. err = Wrap ''failed to create otlp resource'' e))"
  using InitTracer_error [OF assms] by simp

theorem InitTracer_failure_keeps_globals_witness:
  "InitTracer failing_exporter_ext () (Some orders_cfg) noop_globals =
     (Returns (Inl (Wrap ''failed to create otlp exporter'' (Err ''invalid client options''))),
      Some orders_cfg, noop_globals) \<and>
   globalTracerProvider noop_globals = NoopProvider \<and>
   globalTextMapPropagator noop_globals = NewCompositeTextMapPropagator [Baggage]"
proof -
  have run: "InitTracer failing_exporter_ext () (Some orders_cfg) noop_globals =
     (Returns (Inl (Wrap ''failed to create otlp exporter'' (Err ''invalid client options''))),
      Some orders_cfg, noop_globals)"
    by (simp add: eval_defs)
  from InitTracer_failure_keeps_globals [OF run] run show ?thesis
    by (simp add: noop_globals_def)
qed

text \<open>
  C2. When the parsed endpoint has the scheme \<^verbatim>\<open>http\<close>, the client of the exporter of
  a successful call was built with \<^verbatim>\<open>WithInsecure()\<close> and without TLS credentials,
  whatever the \<^verbatim>\<open>Creds\<close> field held.
\<close>

theorem InitTracer_http_insecure:
  assumes "InitTracer ext ctx (Some cfg) g = (Returns (Inr h), cfg', g')"
    and "url_Parse ext (ExporterURL cfg) = Inr u"
    and "Scheme u = ''http''"
  shows "\<exists>tp hdrs.
           tracerProvider h = SdkProvider tp \<and>
           exporter_client (tp_batcher tp) =
             NewClient [WithEndpoint (Host u), WithInsecure, WithHeaders hdrs]"
  using InitTracer_success [OF assms(1)] assms(2,3)
  by (auto simp: NewTracerProvider_def)

theorem InitTracer_http_insecure_witness:
  "Creds insecure_cfg = Some (TransportCredentials ''tls'') \<and>
   (\<exists>h cfg' g' tp hdrs.
      InitTracer example_ext () (Some insecure_cfg) initial_globals =
        (Returns (Inr h), cfg', g') \<and>
      tracerProvider h = SdkProvider tp \<and>
      exporter_client (tp_batcher tp) =
        NewClient [WithEndpoint ''localhost:4317'', WithInsecure, WithHeaders hdrs])"
proof -
  have "\<exists>h cfg' g'. InitTracer example_ext () (Some insecure_cfg) initial_globals =
          (Returns (Inr h), cfg', g')"
    by (simp add: eval_defs)
  then obtain h cfg' g' where
    run: "InitTracer example_ext () (Some insecure_cfg) initial_globals =
            (Returns (Inr h), cfg', g')"
    by blast
  have u: "url_Parse example_ext (ExporterURL insecure_cfg) =
             Inr \<lparr>Scheme = ''http'', Host = ''localhost:4317''\<rparr>"
    by (simp add: eval_defs)
  from InitTracer_http_insecure [OF run u] run show ?thesis
    by (auto simp: insecure_cfg_def)
qed

text \<open>
  C3. The provider that a successful call installs and returns was constructed with the
  configured sampler when the \<^verbatim>\<open>Sampler\<close> field is non-nil, and with
  \<^verbatim>\<open>AlwaysSample()\<close> when it is nil.
\<close>

theorem InitTracer_sampler:
  assumes "InitTracer ext ctx (Some cfg) g = (Returns (Inr h), cfg', g')"
  shows "\<exists>tp.
           tracerProvider h = SdkProvider tp \<and>
           globalTracerProvider g' = SdkProvider tp \<and>
           tp_sampler tp = (case Sampler cfg of Some s \<Rightarrow> s | None \<Rightarrow> AlwaysSample)"
  using InitTracer_success [OF assms]
  by (auto simp: NewTracerProvider_def)

theorem InitTracer_sampler_witness:
  "(\<exists>h cfg' g' tp.
      InitTracer example_ext () (Some orders_cfg) initial_globals =
        (Returns (Inr h), cfg', g') \<and>
      globalTracerProvider g' = SdkProvider tp \<and>
      tp_sampler tp = OtherSampler ''counting'') \<and>
   (\<exists>h cfg' g' tp.
      InitTracer example_ext () (Some (orders_cfg\<lparr>Sampler := None\<rparr>)) initial_globals =
        (Returns (Inr h), cfg', g') \<and>
      globalTracerProvider g' = SdkProvider tp \<and>
      tp_sampler tp = AlwaysSample)"
proof -
  have "\<exists>h cfg' g'. InitTracer example_ext () (Some orders_cfg) initial_globals =
          (Returns (Inr h), cfg', g')"
    by (simp add: eval_defs)
  then obtain h cfg' g' where
    run: "InitTracer example_ext () (Some orders_cfg) initial_globals =
            (Returns (Inr h), cfg', g')"
    by blast
  have "\<exists>h cfg' g'.
          InitTracer example_ext () (Some (orders_cfg\<lparr>Sampler := None\<rparr>)) initial_globals =
            (Returns (Inr h), cfg', g')"
    by (simp add: eval_defs)
  then obtain h0 cfg0 g0 where
    run0: "InitTracer example_ext () (Some (orders_cfg\<lparr>Sampler := None\<rparr>)) initial_globals =
             (Returns (Inr h0), cfg0, g0)"
    by blast
  from InitTracer_sampler [OF run] run have
    "\<exists>h cfg' g' tp.
      InitTracer example_ext () (Some orders_cfg) initial_globals =
        (Returns (Inr h), cfg', g') \<and>
      globalTracerProvider g' = SdkProvider tp \<and>
      tp_sampler tp = OtherSampler ''counting''"
    by (auto simp: orders_cfg_def)
  moreover from InitTracer_sampler [OF run0] run0 have
    "\<exists>h cfg' g' tp.
      InitTracer example_ext () (Some (orders_cfg\<lparr>Sampler := None\<rparr>)) initial_globals =
        (Returns (Inr h), cfg', g') \<and>
      globalTracerProvider g' = SdkProvider tp \<and>
      tp_sampler tp = AlwaysSample"
    by (auto simp: orders_cfg_def)
  ultimately show ?thesis by blast
qed


text \<open>
  C4 (as stated). For \<^verbatim>\<open>Config{ExporterURL: "not a url"}\<close> the error is not the
  wrapped parse error, even with a parser that rejects the string: the service name is
  empty, and that check comes first.
\<close>

theorem InitTracer_not_a_url_counterexample:
  "fst (InitTracer rejecting_url_ext () (Some not_a_url_cfg) initial_globals) =
     Returns (Inl (Err ''service name is missing in the otlp tracer configuration'')) \<and>
   \<not> invalid_exporter_URL_error
       (Err ''service name is missing in the otlp tracer configuration'') \<and>
   url_Parse rejecting_url_ext (ExporterURL not_a_url_cfg) = Inl (Err ''invalid URL'')"
  by (simp add: eval_defs)

text \<open>
  C4 (amended). For \<^verbatim>\<open>Config{ExporterURL: "not a url"}\<close>, whatever the collaborators
  do, \<^verbatim>\<open>InitTracer\<close> fails with the missing-service-name error, and the configuration
  and the process-wide state are unchanged.
\<close>

theorem InitTracer_not_a_url:
  "InitTracer ext ctx (Some not_a_url_cfg) g =
     (Returns (Inl (Err ''service name is missing in the otlp tracer configuration'')),
      Some not_a_url_cfg, g)"
  by (simp add: not_a_url_cfg_def)

text \<open>
  C5 (as stated). The scenario configuration (scheme \<^verbatim>\<open>http\<close>, non-nil \<^verbatim>\<open>Creds\<close>)
  is accepted, and after the call its \<^verbatim>\<open>Creds\<close> field is nil.
\<close>

theorem InitTracer_Config_unmodified_counterexample:
  "ExporterURL insecure_cfg \<noteq> [] \<and> ServiceName insecure_cfg \<noteq> [] \<and>
   url_Parse example_ext (ExporterURL insecure_cfg) =
     Inr \<lparr>Scheme = ''http'', Host = ''localhost:4317''\<rparr> \<and>
   Creds insecure_cfg = Some (TransportCredentials ''tls'') \<and>
   fst (snd (InitTracer example_ext () (Some insecure_cfg) initial_globals)) =
     Some (insecure_cfg\<lparr>Creds := None\<rparr>) \<and>
   fst (snd (InitTracer example_ext () (Some insecure_cfg) initial_globals)) \<noteq>
     Some insecure_cfg"
  by (simp add: eval_defs)

text \<open>
  C5 (amended). For every configuration that passes validation, after the call every
  field but \<^verbatim>\<open>Creds\<close> holds its value from before; \<^verbatim>\<open>Creds\<close> does too unless the
  parsed scheme is \<^verbatim>\<open>http\<close>, in which case it is nil.
\<close>

theorem InitTracer_Config_after:
  assumes "ExporterURL cfg \<noteq> []" and "ServiceName cfg \<noteq> []"
    and "url_Parse ext (ExporterURL cfg) = Inr u"
  shows "\<exists>cfg'.
           fst (snd (InitTracer ext ctx (Some cfg) g)) = Some cfg' \<and>
           ExporterURL cfg' = ExporterURL cfg \<and> SecretToken cfg' = SecretToken cfg \<and>
           ServiceName cfg' = ServiceName cfg \<and> ServiceVersion cfg' = ServiceVersion cfg \<and>
           DeploymentEnvironment cfg' = DeploymentEnvironment cfg \<and>
           Sampler cfg' = Sampler cfg \<and>
           Creds cfg' = (if Scheme u = ''http'' then None else Creds cfg)"
  using InitTracer_cfg_after [OF assms, of ctx g] by simp

theorem InitTracer_Config_after_witness:
  "fst (snd (InitTracer example_ext () (Some orders_cfg) initial_globals)) = Some orders_cfg \<and>
   Creds orders_cfg = Some (TransportCredentials ''tls'')"
proof -
  have ne: "ExporterURL orders_cfg \<noteq> []" "ServiceName orders_cfg \<noteq> []"
    by (simp_all add: orders_cfg_def)
  have u: "url_Parse example_ext (ExporterURL orders_cfg) =
             Inr \<lparr>Scheme = ''https'', Host = ''collector.example:4317''\<rparr>"
    by (simp add: eval_defs)
  from InitTracer_Config_after [OF ne u, of "()" initial_globals] show ?thesis
    by (auto simp: orders_cfg_def)
qed

text \<open>
  C6. The client of the exporter of every successful call was built with the one header
  \<^verbatim>\<open>Authorization\<close>, whose value is \<^verbatim>\<open>Bearer\<close>, a space and the secret token; with
  an empty token the value is \<^verbatim>\<open>Bearer\<close> and a space. The token is not inspected:
  a configuration that passes the three checks is accepted, with this header, whenever the
  exporter constructor does not fail on the client carrying it and the resource
  constructor does not fail.
\<close>

theorem InitTracer_authorization_header:
  "(InitTracer ext ctx (Some cfg) g = (Returns (Inr h), cfg', g') \<longrightarrow>
      (\<exists>tp endpoint secureOption hdrs.
         tracerProvider h = SdkProvider tp \<and>
         exporter_client (tp_batcher tp) =
           NewClient [endpoint, secureOption, WithHeaders hdrs] \<and>
         hdrs = [''Authorization'' \<mapsto> ''Bearer '' @ SecretToken cfg] \<and>
         hdrs ''Authorization'' = Some (''Bearer '' @ SecretToken cfg) \<and>
         dom hdrs = {''Authorization''} \<and>
         (SecretToken cfg = [] \<longrightarrow> hdrs ''Authorization'' = Some ''Bearer ''))) \<and>
   (ExporterURL cfg \<noteq> [] \<and> ServiceName cfg \<noteq> [] \<and>
    url_Parse ext (ExporterURL cfg) = Inr u \<and>
    otlptrace_New_err ext ctx
      (NewClient
         [WithEndpoint (Host u),
          (case (if Scheme u = ''http'' then None else Creds cfg) of
             Some creds \<Rightarrow> WithTLSCredentials creds
           | None \<Rightarrow> WithInsecure),
          WithHeaders [''Authorization'' \<mapsto> ''Bearer '' @ SecretToken cfg]]) = None \<and>
    resource_New_err ext ctx
      [(ServiceNameKey, ServiceName cfg),
       (ServiceVersionKey, ServiceVersion cfg),
       (DeploymentEnvironmentKey, DeploymentEnvironment cfg),
       (TelemetrySDKLanguageKey, ''go'')] = None \<longrightarrow>
      (\<exists>ha cfga ga tp endpoint secureOption.
         InitTracer ext ctx (Some cfg) g = (Returns (Inr ha), cfga, ga) \<and>
         tracerProvider ha = SdkProvider tp \<and>
         exporter_client (tp_batcher tp) =
           NewClient
             [endpoint, secureOption,
              WithHeaders [''Authorization'' \<mapsto> ''Bearer '' @ SecretToken cfg]]))"
proof (intro conjI impI)
  assume run: "InitTracer ext ctx (Some cfg) g = (Returns (Inr h), cfg', g')"
  from InitTracer_success [OF run]
  show "\<exists>tp endpoint secureOption hdrs.
         tracerProvider h = SdkProvider tp \<and>
         exporter_client (tp_batcher tp) =
           NewClient [endpoint, secureOption, WithHeaders hdrs] \<and>
         hdrs = [''Authorization'' \<mapsto> ''Bearer '' @ SecretToken cfg] \<and>
         hdrs ''Authorization'' = Some (''Bearer '' @ SecretToken cfg) \<and>
         dom hdrs = {''Authorization''} \<and>
         (SecretToken cfg = [] \<longrightarrow> hdrs ''Authorization'' = Some ''Bearer '')"
    by (auto simp: NewTracerProvider_def)
next
  assume ok: "ExporterURL cfg \<noteq> [] \<and> ServiceName cfg \<noteq> [] \<and>
    url_Parse ext (ExporterURL cfg) = Inr u \<and>
    otlptrace_New_err ext ctx
      (NewClient
         [WithEndpoint (Host u),
          (case (if Scheme u = ''http'' then None else Creds cfg) of
             Some creds \<Rightarrow> WithTLSCredentials creds
           | None \<Rightarrow> WithInsecure),
          WithHeaders [''Authorization'' \<mapsto> ''Bearer '' @ SecretToken cfg]]) = None \<and>
    resource_New_err ext ctx
      [(ServiceNameKey, ServiceName cfg),
       (ServiceVersionKey, ServiceVersion cfg),
       (DeploymentEnvironmentKey, DeploymentEnvironment cfg),
       (TelemetrySDKLanguageKey, ''go'')] = None"
  then obtain ha cfga ga where
    run: "InitTracer ext ctx (Some cfg) g = (Returns (Inr ha), cfga, ga)"
    using InitTracer_accepts [of cfg ext u ctx g] by blast
  from InitTracer_success [OF run]
  have "\<exists>tp endpoint secureOption.
          tracerProvider ha = SdkProvider tp \<and>
          exporter_client (tp_batcher tp) =
            NewClient
              [endpoint, secureOption,
               WithHeaders [''Authorization'' \<mapsto> ''Bearer '' @ SecretToken cfg]]"
    by (auto simp: NewTracerProvider_def)
  with run
  show "\<exists>ha cfga ga tp endpoint secureOption.
         InitTracer ext ctx (Some cfg) g = (Returns (Inr ha), cfga, ga) \<and>
         tracerProvider ha = SdkProvider tp \<and>
         exporter_client (tp_batcher tp) =
           NewClient
             [endpoint, secureOption,
              WithHeaders [''Authorization'' \<mapsto> ''Bearer '' @ SecretToken cfg]]"
    by blast
qed

theorem InitTracer_authorization_header_witness:
  "SecretToken orders_cfg = ''s3cr3t'' \<and>
   (\<exists>h cfg' g' tp endpoint secureOption hdrs.
      InitTracer example_ext () (Some orders_cfg) initial_globals =
        (Returns (Inr h), cfg', g') \<and>
      tracerProvider h = SdkProvider tp \<and>
      exporter_client (tp_batcher tp) =
        NewClient [endpoint, secureOption, WithHeaders hdrs] \<and>
      hdrs ''Authorization'' = Some ''Bearer s3cr3t'' \<and>
      dom hdrs = {''Authorization''}) \<and>
   SecretToken insecure_cfg = [] \<and>
   (\<exists>h cfg' g' tp endpoint secureOption hdrs.
      InitTracer example_ext () (Some insecure_cfg) initial_globals =
        (Returns (Inr h), cfg', g') \<and>
      tracerProvider h = SdkProvider tp \<and>
      exporter_client (tp_batcher tp) =
        NewClient [endpoint, secureOption, WithHeaders hdrs] \<and>
      hdrs ''Authorization'' = Some ''Bearer '' \<and>
      dom hdrs = {''Authorization''})"
proof -
  have ok: "ExporterURL orders_cfg \<noteq> [] \<and> ServiceName orders_cfg \<noteq> [] \<and>
    url_Parse example_ext (ExporterURL orders_cfg) =
      Inr \<lparr>Scheme = ''https'', Host = ''collector.example:4317''\<rparr> \<and>
    otlptrace_New_err example_ext ()
      (NewClient
         [WithEndpoint (Host \<lparr>Scheme = ''https'', Host = ''collector.example:4317''\<rparr>),
          (case (if Scheme \<lparr>Scheme = ''https'', Host = ''collector.example:4317''\<rparr> = ''http''
                 then None else Creds orders_cfg) of
             Some creds \<Rightarrow> WithTLSCredentials creds
           | None \<Rightarrow> WithInsecure),
          WithHeaders [''Authorization'' \<mapsto> ''Bearer '' @ SecretToken orders_cfg]]) = None \<and>
    resource_New_err example_ext ()
      [(ServiceNameKey, ServiceName orders_cfg),
       (ServiceVersionKey, ServiceVersion orders_cfg),
       (DeploymentEnvironmentKey, DeploymentEnvironment orders_cfg),
       (TelemetrySDKLanguageKey, ''go'')] = None"
    by (simp add: example_ext_def example_url_Parse_def orders_cfg_def)
  have tok: "SecretToken orders_cfg = ''s3cr3t''"
    by (simp add: orders_cfg_def)
  from InitTracer_authorization_header
         [of example_ext "()" orders_cfg initial_globals _ _ _
             "\<lparr>Scheme = ''https'', Host = ''collector.example:4317''\<rparr>",
          THEN conjunct2, THEN mp, OF ok]
  have first:
    "\<exists>h cfg' g' tp endpoint secureOption hdrs.
      InitTracer example_ext () (Some orders_cfg) initial_globals =
        (Returns (Inr h), cfg', g') \<and>
      tracerProvider h = SdkProvider tp \<and>
      exporter_client (tp_batcher tp) =
        NewClient [endpoint, secureOption, WithHeaders hdrs] \<and>
      hdrs ''Authorization'' = Some ''Bearer s3cr3t'' \<and>
      dom hdrs = {''Authorization''}"
    unfolding tok by fastforce
  have "\<exists>h cfg' g'. InitTracer example_ext () (Some insecure_cfg) initial_globals =
          (Returns (Inr h), cfg', g')"
    by (simp add: eval_defs)
  then obtain h cfg' g' where
    run: "InitTracer example_ext () (Some insecure_cfg) initial_globals =
            (Returns (Inr h), cfg', g')"
    by blast
  have tok0: "SecretToken insecure_cfg = []"
    by (simp add: insecure_cfg_def)
  from InitTracer_authorization_header
         [of example_ext "()" insecure_cfg initial_globals h cfg' g',
          THEN conjunct1, THEN mp, OF run] tok0 run
  have second:
    "\<exists>h cfg' g' tp endpoint secureOption hdrs.
      InitTracer example_ext () (Some insecure_cfg) initial_globals =
        (Returns (Inr h), cfg', g') \<and>
      tracerProvider h = SdkProvider tp \<and>
      exporter_client (tp_batcher tp) =
        NewClient [endpoint, secureOption, WithHeaders hdrs] \<and>
      hdrs ''Authorization'' = Some ''Bearer '' \<and>
      dom hdrs = {''Authorization''}"
    by auto
  from first second tok tok0 show ?thesis by blast
qed

text \<open>
  C7. The tracer of the handle of a successful \<^verbatim>\<open>InitTracer\<close> is the one the
  just-installed provider hands out under the service name followed by \<^verbatim>\<open>-tracer\<close>;
  \<^verbatim>\<open>InitNoopTracer\<close> always returns a handle, with a nil error, whose tracer is the one
  the no-op provider it installed hands out under \<^verbatim>\<open>noop-tracer\<close>.
\<close>

theorem tracer_names:
  "(InitTracer ext ctx (Some cfg) g = (Returns (Inr h), cfg', g') \<longrightarrow>
      tracer h = NamedTracer (globalTracerProvider g') (ServiceName cfg @ ''-tracer'') \<and>
      globalTracerProvider g' = tracerProvider h \<and>
      (\<exists>tp. tracerProvider h = SdkProvider tp)) \<and>
   (\<exists>hn gn.
      InitNoopTracer ctxn g = (Inr hn, gn) \<and>
      tracer hn = NamedTracer NoopProvider ''noop-tracer'' \<and>
      tracerProvider hn = NoopProvider \<and>
      globalTracerProvider gn = NoopProvider)"
proof (intro conjI impI)
  assume run: "InitTracer ext ctx (Some cfg) g = (Returns (Inr h), cfg', g')"
  from InitTracer_success [OF run] show "tracer h =
    NamedTracer (globalTracerProvider g') (ServiceName cfg @ ''-tracer'')"
    by auto
  from InitTracer_success [OF run] show "globalTracerProvider g' = tracerProvider h"
    by auto
  from InitTracer_success [OF run] show "\<exists>tp. tracerProvider h = SdkProvider tp"
    by auto
next
  show "\<exists>hn gn.
      InitNoopTracer ctxn g = (Inr hn, gn) \<and>
      tracer hn = NamedTracer NoopProvider ''noop-tracer'' \<and>
      tracerProvider hn = NoopProvider \<and>
      globalTracerProvider gn = NoopProvider"
    by (simp add: InitNoopTracer_def Let_def SetTracerProvider_def otel_Tracer_def)
qed

theorem tracer_names_witness:
  "\<exists>h cfg' g'.
     InitTracer example_ext () (Some orders_cfg) initial_globals =
       (Returns (Inr h), cfg', g') \<and>
     tracer h = NamedTracer (globalTracerProvider g') ''orders-tracer'' \<and>
     tracer_name (tracer h) = ''orders-tracer''"
proof -
  have "\<exists>h cfg' g'. InitTracer example_ext () (Some orders_cfg) initial_globals =
          (Returns (Inr h), cfg', g')"
    by (simp add: eval_defs)
  then obtain h cfg' g' where
    run: "InitTracer example_ext () (Some orders_cfg) initial_globals =
            (Returns (Inr h), cfg', g')"
    by blast
  from tracer_names [of example_ext "()" orders_cfg initial_globals h cfg' g' "()",
         THEN conjunct1, THEN mp, OF run]
  have "tracer h = NamedTracer (globalTracerProvider g') (ServiceName orders_cfg @ ''-tracer'')"
    by (rule conjunct1)
  then have "tracer h = NamedTracer (globalTracerProvider g') ''orders-tracer''"
    by (simp add: orders_cfg_def)
  with run show ?thesis by auto
qed

text \<open>
  C8. The propagator that a successful call installs is the composite of trace-context
  propagation and baggage propagation, in this order and nothing else.
\<close>

theorem InitTracer_propagator:
  assumes "InitTracer ext ctx (Some cfg) g = (Returns (Inr h), cfg', g')"
  shows "globalTextMapPropagator g' = NewCompositeTextMapPropagator [TraceContext, Baggage]"
  using InitTracer_success [OF assms] by auto

theorem InitTracer_propagator_witness:
  "globalTextMapPropagator noop_globals = NewCompositeTextMapPropagator [Baggage] \<and>
   (\<exists>h cfg' g'.
      InitTracer example_ext () (Some orders_cfg) noop_globals = (Returns (Inr h), cfg', g') \<and>
      globalTextMapPropagator g' = NewCompositeTextMapPropagator [TraceContext, Baggage])"
proof -
  have "\<exists>h cfg' g'. InitTracer example_ext () (Some orders_cfg) noop_globals =
          (Returns (Inr h), cfg', g')"
    by (simp add: eval_defs)
  then obtain h cfg' g' where
    run: "InitTracer example_ext () (Some orders_cfg) noop_globals =
            (Returns (Inr h), cfg', g')"
    by blast
  from InitTracer_propagator [OF run] run show ?thesis
    by (auto simp: noop_globals_def)
qed

text \<open>
  C9. \<^verbatim>\<open>Shutdown\<close> on a handle over the no-op provider, such as the one of
  \<^verbatim>\<open>InitNoopTracer\<close>, returns a nil error and invokes no SDK shutdown. On a handle over
  an SDK provider whose shutdown fails, it invokes that shutdown once and returns (it does
  not panic) the failure wrapped as \<^verbatim>\<open>failed to shutdown tracer provider\<close>.
\<close>

theorem Shutdown_noop_and_failure:
  "(tracerProvider t = NoopProvider \<longrightarrow> Shutdown ext (Some t) ctx = (Returns None, [])) \<and>
   (InitNoopTracer ctx0 g = (Inr hn, gn) \<longrightarrow> Shutdown ext (Some hn) ctx = (Returns None, [])) \<and>
   (tracerProvider t = SdkProvider tp \<and> sdk_Shutdown_err ext ctx tp = Some err \<longrightarrow>
      Shutdown ext (Some t) ctx =
        (Returns (Some (Wrap ''failed to shutdown tracer provider'' err)), [tp]) \<and>
      Unwrap (Wrap ''failed to shutdown tracer provider'' err) = Some err \<and>
      Error (Wrap ''failed to shutdown tracer provider'' err) =
        ''failed to shutdown tracer provider: '' @ Error err)"
  by (auto simp: InitNoopTracer_def Let_def)

theorem Shutdown_noop_and_failure_witness:
  "(\<exists>hn gn.
      InitNoopTracer () initial_globals = (Inr hn, gn) \<and>
      Shutdown failing_shutdown_ext (Some hn) () = (Returns None, [])) \<and>
   (\<exists>h cfg' g' tp.
      InitTracer failing_shutdown_ext () (Some orders_cfg) initial_globals =
        (Returns (Inr h), cfg', g') \<and>
      tracerProvider h = SdkProvider tp \<and>
      Shutdown failing_shutdown_ext (Some h) () =
        (Returns
           (Some (Wrap ''failed to shutdown tracer provider'' (Err ''context deadline exceeded''))),
         [tp]))"
proof -
  obtain hn gn where noop: "InitNoopTracer () initial_globals = (Inr hn, gn)"
    by (simp add: InitNoopTracer_def Let_def)
  have "\<exists>h cfg' g'. InitTracer failing_shutdown_ext () (Some orders_cfg) initial_globals =
          (Returns (Inr h), cfg', g')"
    by (simp add: eval_defs)
  then obtain h cfg' g' where
    run: "InitTracer failing_shutdown_ext () (Some orders_cfg) initial_globals =
            (Returns (Inr h), cfg', g')"
    by blast
  from InitTracer_success [OF run] obtain tp where tp: "tracerProvider h = SdkProvider tp"
    by auto
  have fails: "sdk_Shutdown_err failing_shutdown_ext () tp = Some (Err ''context deadline exceeded'')"
    by (simp add: failing_shutdown_ext_def)
  from Shutdown_noop_and_failure
         [of h failing_shutdown_ext "()" "()" initial_globals hn gn tp
             "Err ''context deadline exceeded''"]
       noop tp fails run
  show ?thesis by auto
qed

text \<open>
  C10. \<^verbatim>\<open>InitTracer\<close> on a nil \<^verbatim>\<open>cfg\<close> panics, before anything is validated or
  written, and returns no error; on every non-nil \<^verbatim>\<open>cfg\<close> it returns.
\<close>

theorem InitTracer_nil_cfg_panics:
  "InitTracer ext ctx None g = (Panic, None, g) \<and>
   (\<forall>err. fst (InitTracer ext ctx None g) \<noteq> Returns (Inl err)) \<and>
   (\<forall>cfg. fst (InitTracer ext ctx (Some cfg) g) \<noteq> Panic)"
proof (intro conjI allI)
  show "InitTracer ext ctx None g = (Panic, None, g)"
    by simp
  show "fst (InitTracer ext ctx None g) \<noteq> Returns (Inl err)" for err
    by simp
  show "fst (InitTracer ext ctx (Some cfg) g) \<noteq> Panic" for cfg
    by (rule InitTracer_Some_returns)
qed

end
